theory Spec2Isabelle
  imports Main "HOL-Library.Word"
begin

unbundle bit_operations_syntax

section \<open>Environment (env.h)\<close>

text \<open>
  The development models the 64 bit build (\<^verbatim>\<open>_ENV_BITS == 64\<close>): \<^verbatim>\<open>env_word_type\<close> is
  \<^verbatim>\<open>uint64_t\<close>, and so are \<^verbatim>\<open>lookup_index_type\<close> and \<^verbatim>\<open>size_type\<close>.
\<close>

type_synonym env_word_type = "64 word"
type_synonym lookup_index_type = "64 word"

section \<open>Pieces (piece.h, piecevector.cpp)\<close>

record piece =
  left :: env_word_type
  top :: env_word_type
  right :: env_word_type
  bottom :: env_word_type

text \<open>
  The loop of \<^verbatim>\<open>pieceVector::edges_count\<close>: the running maximum \<^verbatim>\<open>edge\<close> is raised by each
  of the four edges of each piece in turn.
\<close>

definition raise_edge :: "env_word_type \<Rightarrow> env_word_type \<Rightarrow> env_word_type" where
  "raise_edge edge v = (if edge < v then v else edge)"

definition edges_step :: "piece \<Rightarrow> env_word_type \<Rightarrow> env_word_type" where
  "edges_step p edge =
     raise_edge (raise_edge (raise_edge (raise_edge edge (left p)) (top p)) (right p)) (bottom p)"

definition highest_edge :: "piece list \<Rightarrow> env_word_type" where
  "highest_edge pieces = fold edges_step pieces 0"

text \<open>\<^verbatim>\<open>return (edge + 1)\<close> is an addition of \<^verbatim>\<open>size_type\<close>: it wraps at \<open>2 ^ 64\<close>.\<close>

definition edges_count :: "piece list \<Rightarrow> env_word_type" where
  "edges_count pieces = highest_edge pieces + 1"

section \<open>The driver's dispatch (solver.h, main.cpp)\<close>

datatype edge_class = E8 | E16 | E32

datatype mask_class = Mask32 | Mask64 | Mask128 | Mask256 | Mask512

datatype tile_size = T1x1 | T1x2 | T2x1 | T2x2 | T2x4 | T4x2 | T4x4 | T4x8 | T8x4

datatype backend = LookupArray | LookupVector | LookupMap

text \<open>
  The typedefs of \<^verbatim>\<open>e8::tileArrayLookups\<close>, \<^verbatim>\<open>e16::tileArrayLookups\<close> and
  \<^verbatim>\<open>e32::tileArrayLookups\<close>: which of \<^verbatim>\<open>tileArrayLookupArray\<close>, \<^verbatim>\<open>tileArrayLookupVector\<close>
  and \<^verbatim>\<open>tileArrayLookupMap\<close> holds the tiles of each size.
\<close>

fun tileArrayLookups :: "edge_class \<Rightarrow> tile_size \<Rightarrow> backend" where
  "tileArrayLookups E32 T1x1 = LookupArray"
| "tileArrayLookups E32 T1x2 = LookupVector"
| "tileArrayLookups E32 T2x1 = LookupVector"
| "tileArrayLookups E32 T2x2 = LookupVector"
| "tileArrayLookups E32 T2x4 = LookupMap"
| "tileArrayLookups E32 T4x2 = LookupMap"
| "tileArrayLookups E32 T4x4 = LookupMap"
| "tileArrayLookups E32 T4x8 = LookupMap"
| "tileArrayLookups E32 T8x4 = LookupMap"
| "tileArrayLookups E16 T1x1 = LookupArray"
| "tileArrayLookups E16 T1x2 = LookupVector"
| "tileArrayLookups E16 T2x1 = LookupVector"
| "tileArrayLookups E16 T2x2 = LookupVector"
| "tileArrayLookups E16 T2x4 = LookupMap"
| "tileArrayLookups E16 T4x2 = LookupMap"
| "tileArrayLookups E16 T4x4 = LookupMap"
| "tileArrayLookups E16 T4x8 = LookupMap"
| "tileArrayLookups E16 T8x4 = LookupMap"
| "tileArrayLookups E8 T1x1 = LookupArray"
| "tileArrayLookups E8 T1x2 = LookupArray"
| "tileArrayLookups E8 T2x1 = LookupArray"
| "tileArrayLookups E8 T2x2 = LookupVector"
| "tileArrayLookups E8 T2x4 = LookupVector"
| "tileArrayLookups E8 T4x2 = LookupVector"
| "tileArrayLookups E8 T4x4 = LookupMap"
| "tileArrayLookups E8 T4x8 = LookupMap"
| "tileArrayLookups E8 T8x4 = LookupMap"

text \<open>
  What the driver does once the pieces are loaded: it either hands the puzzle to
  \<^verbatim>\<open>solve_for_tile_array_lookups\<close>, instantiated at a mask type and an edge class, or prints
  one line and solves nothing.
\<close>

datatype dispatch = Solve mask_class edge_class | Message string

definition solve_for_mask :: "mask_class \<Rightarrow> piece list \<Rightarrow> dispatch" where
  "solve_for_mask M pieces =
     (let edgesCount = edges_count pieces in
      if edgesCount < 8 then Solve M E8
      else if edgesCount < 16 then Solve M E16
      else if edgesCount < 32 then Solve M E32
      else Message ''too many edges!'')"

text \<open>The tail of \<^verbatim>\<open>main\<close>: the mask size is chosen from the number of pieces.\<close>

definition main_dispatch :: "piece list \<Rightarrow> dispatch" where
  "main_dispatch pieces =
     (if length pieces \<le> 32 then solve_for_mask Mask32 pieces
      else if length pieces \<le> 64 then solve_for_mask Mask64 pieces
      else if length pieces \<le> 128 then solve_for_mask Mask128 pieces
      else if length pieces \<le> 256 then solve_for_mask Mask256 pieces
      else if length pieces \<le> 512 then solve_for_mask Mask512 pieces
      else Message ''too many pieces!'')"

text \<open>The colours of a list of pieces, and the number of colours of an edge class.\<close>

definition colours :: "piece list \<Rightarrow> env_word_type set" where
  "colours pieces = (\<Union>p \<in> set pieces. {left p, top p, right p, bottom p})"

fun class_colours :: "edge_class \<Rightarrow> nat" where
  "class_colours E8 = 8"
| "class_colours E16 = 16"
| "class_colours E32 = 32"

section \<open>Lookup values (lookup.h)\<close>

text \<open>\<^verbatim>\<open>_numBits\<close>: the number of least significant bits that are set.\<close>

function numBits :: "env_word_type \<Rightarrow> nat" where
  "numBits v = (if v AND 1 \<noteq> 0 then 1 + numBits (drop_bit 1 v) else 0)"
  by pat_completeness auto
termination
proof (relation "measure unat")
  show "wf (measure unat)" by simp
next
  fix v :: env_word_type
  assume "v AND 1 \<noteq> 0"
  then have "v \<noteq> 0" by auto
  then have "unat v \<noteq> 0" by (simp add: unat_eq_0)
  then have "unat v div 2 < unat v" by simp
  then show "(drop_bit 1 v, v) \<in> measure unat"
    by (simp add: drop_bit_eq_div unat_div)
qed

declare numBits.simps [simp del]

text \<open>\<^verbatim>\<open>_generateMask\<close>: a mask of \<open>sz\<close> set bits.\<close>

fun generateMask :: "nat \<Rightarrow> env_word_type" where
  "generateMask 0 = 0"
| "generateMask (Suc sz) = push_bit 1 (generateMask sz) OR 1"

text \<open>
  The template parameters of a tile type: \<^verbatim>\<open>_LR\<close> and \<^verbatim>\<open>_TB\<close>, the bits of a left or right
  and of a top or bottom edge pattern, which are also the widths of the bit-fields of the
  \<^verbatim>\<open>VALUE\<close> structures, and the \<^verbatim>\<open>LENGTH\<close> of the mask type, its number of words.
\<close>

record tile_type =
  LR :: nat
  TB :: nat
  mask_length :: nat

definition LEFT_EDGE :: "'a tile_type_scheme \<Rightarrow> lookup_index_type" where
  "LEFT_EDGE T = generateMask (LR T)"

definition LEFT_EDGE_BITS :: "'a tile_type_scheme \<Rightarrow> nat" where
  "LEFT_EDGE_BITS T = numBits (LEFT_EDGE T)"

definition TOP_EDGE :: "'a tile_type_scheme \<Rightarrow> lookup_index_type" where
  "TOP_EDGE T = generateMask (TB T)"

definition TOP_EDGE_BITS :: "'a tile_type_scheme \<Rightarrow> nat" where
  "TOP_EDGE_BITS T = numBits (TOP_EDGE T)"

definition MASK_LEFT_EDGE :: "'a tile_type_scheme \<Rightarrow> lookup_index_type" where
  "MASK_LEFT_EDGE T = LEFT_EDGE T"

definition MASK_LEFT_EDGE_INV :: "'a tile_type_scheme \<Rightarrow> lookup_index_type" where
  "MASK_LEFT_EDGE_INV T = NOT (MASK_LEFT_EDGE T)"

definition MASK_TOP_EDGE :: "'a tile_type_scheme \<Rightarrow> lookup_index_type" where
  "MASK_TOP_EDGE T = push_bit (LEFT_EDGE_BITS T) (TOP_EDGE T)"

definition MASK_TOP_EDGE_INV :: "'a tile_type_scheme \<Rightarrow> lookup_index_type" where
  "MASK_TOP_EDGE_INV T = NOT (MASK_TOP_EDGE T)"

definition MAX_INDICES :: "'a tile_type_scheme \<Rightarrow> env_word_type" where
  "MAX_INDICES T = push_bit 2 ((MASK_LEFT_EDGE T OR MASK_TOP_EDGE T) + 1)"

text \<open>
  A bit-field of \<open>width\<close> bits at bit \<open>off\<close> of a word: reading it, and assigning to it (the
  assigned value is truncated to the width, the other bits of the word are kept). The
  compilers the program is built with allocate bit-fields from the least significant bit,
  which the tests of \<^verbatim>\<open>lookup.cpp\<close> and \<^verbatim>\<open>tile.cpp\<close> assert.
\<close>

definition get_field :: "nat \<Rightarrow> nat \<Rightarrow> env_word_type \<Rightarrow> env_word_type" where
  "get_field off width w = take_bit width (drop_bit off w)"

definition set_field :: "nat \<Rightarrow> nat \<Rightarrow> env_word_type \<Rightarrow> env_word_type \<Rightarrow> env_word_type" where
  "set_field off width w x =
     (w AND NOT (push_bit off (mask width))) OR push_bit off (take_bit width x)"

text \<open>
  The fields of a lookup value (\<^verbatim>\<open>lookup_1x1_val\<close> and the like): \<^verbatim>\<open>left\<close> of \<open>LR\<close> bits,
  \<^verbatim>\<open>top\<close> of \<open>TB\<close> bits, then \<^verbatim>\<open>right\<close> and \<^verbatim>\<open>bottom\<close> of one bit each.
\<close>

definition lookup_left :: "'a tile_type_scheme \<Rightarrow> lookup_index_type \<Rightarrow> env_word_type" where
  "lookup_left T w = get_field 0 (LR T) w"

definition lookup_top :: "'a tile_type_scheme \<Rightarrow> lookup_index_type \<Rightarrow> env_word_type" where
  "lookup_top T w = get_field (LR T) (TB T) w"

definition lookup_right :: "'a tile_type_scheme \<Rightarrow> lookup_index_type \<Rightarrow> env_word_type" where
  "lookup_right T w = get_field (LR T + TB T) 1 w"

definition lookup_bottom :: "'a tile_type_scheme \<Rightarrow> lookup_index_type \<Rightarrow> env_word_type" where
  "lookup_bottom T w = get_field (LR T + TB T + 1) 1 w"

definition set_lookup_left ::
  "'a tile_type_scheme \<Rightarrow> lookup_index_type \<Rightarrow> env_word_type \<Rightarrow> lookup_index_type" where
  "set_lookup_left T w x = set_field 0 (LR T) w x"

definition set_lookup_top ::
  "'a tile_type_scheme \<Rightarrow> lookup_index_type \<Rightarrow> env_word_type \<Rightarrow> lookup_index_type" where
  "set_lookup_top T w x = set_field (LR T) (TB T) w x"

definition set_lookup_right ::
  "'a tile_type_scheme \<Rightarrow> lookup_index_type \<Rightarrow> env_word_type \<Rightarrow> lookup_index_type" where
  "set_lookup_right T w x = set_field (LR T + TB T) 1 w x"

definition set_lookup_bottom ::
  "'a tile_type_scheme \<Rightarrow> lookup_index_type \<Rightarrow> env_word_type \<Rightarrow> lookup_index_type" where
  "set_lookup_bottom T w x = set_field (LR T + TB T + 1) 1 w x"

section \<open>Piece masks (bitwisemask.h)\<close>

text \<open>A \<^verbatim>\<open>bitwiseMask<_N>\<close> is its array \<^verbatim>\<open>bits\<close> of \<^verbatim>\<open>_N\<close> words.\<close>

type_synonym bitwiseMask = "env_word_type list"

definition mask_zero :: "nat \<Rightarrow> bitwiseMask" where
  "mask_zero n = replicate n 0"

text \<open>
  \<^verbatim>\<open>setBit\<close>: the loop finds the word \<open>n\<close> and the bit in it. The source writes \<^verbatim>\<open>bits[n]\<close>
  unchecked; the driver picks a mask type with at least as many bits as there are pieces,
  and the model leaves a mask unchanged where \<open>n\<close> is beyond it.
\<close>

function setBit_word :: "nat \<Rightarrow> nat \<Rightarrow> nat \<times> nat" where
  "setBit_word bt n = (if 64 \<le> bt then setBit_word (bt - 64) (n + 1) else (bt, n))"
  by pat_completeness auto
termination
  by (relation "measure fst") auto

declare setBit_word.simps [simp del]

definition setBit :: "nat \<Rightarrow> bitwiseMask \<Rightarrow> bitwiseMask" where
  "setBit bt m =
     (case setBit_word bt 0 of (bt', n) \<Rightarrow> m[n := (m ! n) OR push_bit bt' 1])"

text \<open>\<^verbatim>\<open>copyCombine\<close> and \<^verbatim>\<open>add\<close> (operator \<^verbatim>\<open>|=\<close>): the word-wise OR.\<close>

definition copyCombine :: "bitwiseMask \<Rightarrow> bitwiseMask \<Rightarrow> bitwiseMask" where
  "copyCombine other1 other2 = map2 (OR) other1 other2"

text \<open>Operator \<^verbatim>\<open>&\<close> on masks: whether the two masks share a bit.\<close>

definition mask_shares :: "bitwiseMask \<Rightarrow> bitwiseMask \<Rightarrow> bool" where
  "mask_shares lhs rhs = list_ex (\<lambda>(x, y). x AND y \<noteq> 0) (zip lhs rhs)"

section \<open>Tiles (tile.h)\<close>

text \<open>
  A tile holds its four edge patterns in bit-fields of two words: \<^verbatim>\<open>right\<close> and \<^verbatim>\<open>bottom\<close>
  in the first word, \<^verbatim>\<open>left\<close> and \<^verbatim>\<open>top\<close> in the second, each pair laid out as the
  \<^verbatim>\<open>left\<close> and \<^verbatim>\<open>top\<close> fields of a lookup value are. The reserved fields above them are
  zeroed by the constructor and never assigned. The record keeps the four fields; an
  assignment to a field truncates to its width. The member \<^verbatim>\<open>mask\<close> is \<open>tile_mask\<close> here.
\<close>

record tile =
  val_left :: env_word_type
  val_top :: env_word_type
  val_right :: env_word_type
  val_bottom :: env_word_type
  tile_mask :: bitwiseMask
  random :: env_word_type

definition tile_zero :: "'a tile_type_scheme \<Rightarrow> tile" where
  "tile_zero T = \<lparr>val_left = 0, val_top = 0, val_right = 0, val_bottom = 0,
     tile_mask = mask_zero (mask_length T), random = 0\<rparr>"

definition t_left :: "'a tile_type_scheme \<Rightarrow> tile \<Rightarrow> env_word_type" where
  "t_left T t = take_bit (LR T) (val_left t)"

definition t_top :: "'a tile_type_scheme \<Rightarrow> tile \<Rightarrow> env_word_type" where
  "t_top T t = take_bit (TB T) (val_top t)"

definition t_right :: "'a tile_type_scheme \<Rightarrow> tile \<Rightarrow> env_word_type" where
  "t_right T t = take_bit (LR T) (val_right t)"

definition t_bottom :: "'a tile_type_scheme \<Rightarrow> tile \<Rightarrow> env_word_type" where
  "t_bottom T t = take_bit (TB T) (val_bottom t)"

definition make_tile ::
  "'a tile_type_scheme \<Rightarrow> env_word_type \<Rightarrow> env_word_type \<Rightarrow> env_word_type \<Rightarrow> env_word_type
    \<Rightarrow> bitwiseMask \<Rightarrow> tile" where
  "make_tile T l t r b m = \<lparr>val_left = take_bit (LR T) l, val_top = take_bit (TB T) t,
     val_right = take_bit (LR T) r, val_bottom = take_bit (TB T) b, tile_mask = m, random = 0\<rparr>"

text \<open>
  The two words of a tile. \<^verbatim>\<open>tile::lookup()\<close> returns the first one: the right and bottom
  patterns, placed where a lookup value has its left and top fields.
\<close>

definition tile_lookup :: "'a tile_type_scheme \<Rightarrow> tile \<Rightarrow> lookup_index_type" where
  "tile_lookup T t = t_right T t OR push_bit (LR T) (t_bottom T t)"

definition tile_word1 :: "'a tile_type_scheme \<Rightarrow> tile \<Rightarrow> lookup_index_type" where
  "tile_word1 T t = t_left T t OR push_bit (LR T) (t_top T t)"

text \<open>\<^verbatim>\<open>sortTilesByEdge\<close>: by the second word, then by the first.\<close>

definition sortTilesByEdge :: "'a tile_type_scheme \<Rightarrow> tile \<Rightarrow> tile \<Rightarrow> bool" where
  "sortTilesByEdge T lhs rhs =
     (if tile_word1 T lhs = tile_word1 T rhs then tile_lookup T lhs < tile_lookup T rhs
      else tile_word1 T lhs < tile_word1 T rhs)"

text \<open>
  \<^verbatim>\<open>std::sort\<close> with a comparison functor, as an insertion sort. It returns one of the
  orders \<^verbatim>\<open>std::sort\<close> may return: they differ in the order of elements that compare equal.
\<close>

fun insort_by :: "('a \<Rightarrow> 'a \<Rightarrow> bool) \<Rightarrow> 'a \<Rightarrow> 'a list \<Rightarrow> 'a list" where
  "insort_by lt x [] = [x]"
| "insort_by lt x (y # ys) = (if lt x y then x # y # ys else y # insort_by lt x ys)"

definition std_sort :: "('a \<Rightarrow> 'a \<Rightarrow> bool) \<Rightarrow> 'a list \<Rightarrow> 'a list" where
  "std_sort lt xs = foldr (insort_by lt) xs []"

section \<open>Tile stores (tilearraylookup.h and its three representations)\<close>

text \<open>
  A store owns its tiles in the list \<^verbatim>\<open>tiles_\<close> (here \<open>tile_list\<close>) and indexes pointers to them by lookup value.
  A pointer to a tile is its position in \<^verbatim>\<open>tiles_\<close> (the list only grows at its end, and
  its elements never move). The three representations differ in how the arrays of
  pointers are found from a lookup value; \<^verbatim>\<open>at\<close> of the map returns an empty array for a
  value that was never inserted, as a fresh slot of the array representation is.
\<close>

type_synonym tile_ptr = nat

record store =
  tile_list :: "tile list"
  arrays :: "lookup_index_type \<Rightarrow> tile_ptr list"

definition store_empty :: store where
  "store_empty = \<lparr>tile_list = [], arrays = (\<lambda>_. [])\<rparr>"

definition tiles :: "store \<Rightarrow> nat" where
  "tiles S = length (tile_list S)"

definition at :: "store \<Rightarrow> lookup_index_type \<Rightarrow> tile_ptr list" where
  "at S v = arrays S v"

text \<open>\<^verbatim>\<open>insert_or_assign\<close>: append the pointer to the array of the lookup value.\<close>

definition insert_or_assign :: "lookup_index_type \<Rightarrow> tile_ptr \<Rightarrow> store \<Rightarrow> store" where
  "insert_or_assign lookup t S = S\<lparr>arrays := (arrays S)(lookup := arrays S lookup @ [t])\<rparr>"

text \<open>
  The lookup value that \<^verbatim>\<open>insert\<close> computes for a tile: the tile's second word, with the
  \<^verbatim>\<open>right\<close> and \<^verbatim>\<open>bottom\<close> fields set to whether those edges of the tile are not zero.
\<close>

definition tile_index :: "'a tile_type_scheme \<Rightarrow> tile \<Rightarrow> lookup_index_type" where
  "tile_index T t =
     set_lookup_bottom T
       (set_lookup_right T (tile_word1 T t) (if t_right T t \<noteq> 0 then 1 else 0))
       (if t_bottom T t \<noteq> 0 then 1 else 0)"

definition MASK_UL_CORNER :: "'a tile_type_scheme \<Rightarrow> lookup_index_type" where
  "MASK_UL_CORNER T = MASK_LEFT_EDGE T OR MASK_TOP_EDGE T"

text \<open>\<^verbatim>\<open>tileArrayLookup::insert\<close> of one tile.\<close>

definition insert_tile :: "'a tile_type_scheme \<Rightarrow> tile \<Rightarrow> store \<Rightarrow> store" where
  "insert_tile T t S =
     (let S0 = S\<lparr>tile_list := tile_list S @ [t]\<rparr>;
          back = length (tile_list S0) - 1;
          index = tile_index T t;
          S1 = insert_or_assign index back S0;
          left = (MASK_LEFT_EDGE T AND index \<noteq> 0);
          S2 = (if left then insert_or_assign (MASK_LEFT_EDGE T OR index) back S1 else S1);
          top = (MASK_TOP_EDGE T AND index \<noteq> 0);
          S3 = (if top then insert_or_assign (MASK_TOP_EDGE T OR index) back S2 else S2)
      in if left \<and> top then insert_or_assign (MASK_UL_CORNER T OR index) back S3 else S3)"

text \<open>\<^verbatim>\<open>insert\<close> of a range: each tile in turn.\<close>

definition insert_range :: "'a tile_type_scheme \<Rightarrow> tile list \<Rightarrow> store \<Rightarrow> store" where
  "insert_range T ts S = fold (insert_tile T) ts S"

text \<open>
  \<^verbatim>\<open>randomize\<close>: every tile gets a random number, then every array of pointers is sorted
  by the random numbers of its tiles. The numbers drawn from the generator are the
  argument \<open>rs\<close>, one for each tile (a tile beyond the end of \<open>rs\<close> keeps its number).
\<close>

definition sortTilesByRandom :: "tile list \<Rightarrow> tile_ptr \<Rightarrow> tile_ptr \<Rightarrow> bool" where
  "sortTilesByRandom ts lhs rhs = (random (ts ! lhs) < random (ts ! rhs))"

definition randomize :: "env_word_type list \<Rightarrow> store \<Rightarrow> store" where
  "randomize rs S =
     (let ts = map2 (\<lambda>t r. t\<lparr>random := r\<rparr>) (tile_list S) rs @ drop (length rs) (tile_list S)
      in \<lparr>tile_list = ts, arrays = (\<lambda>v. std_sort (sortTilesByRandom ts) (arrays S v))\<rparr>)"

section \<open>The first rotations (piecevector.h)\<close>

text \<open>The four tiles that \<^verbatim>\<open>generateLookups\<close> makes of a piece, before they are sorted.\<close>

definition rotations :: "'a tile_type_scheme \<Rightarrow> piece \<Rightarrow> nat \<Rightarrow> tile list" where
  "rotations T p pieceNum =
     (let m = setBit pieceNum (mask_zero (mask_length T)) in
      [make_tile T (left p) (bottom p) (right p) (top p) m,
       make_tile T (top p) (left p) (bottom p) (right p) m,
       make_tile T (right p) (top p) (left p) (bottom p) m,
       make_tile T (bottom p) (right p) (top p) (left p) m])"

text \<open>
  The loop of \<^verbatim>\<open>generateLookups\<close>, with its counters \<^verbatim>\<open>corners\<close> and \<^verbatim>\<open>pieceNum\<close>; \<open>t\<close>
  is the sorted array of the four tiles of the piece, and \<^verbatim>\<open>insert( first, last )\<close> inserts
  a range of it.
\<close>

fun generateLookups_loop ::
  "'a tile_type_scheme \<Rightarrow> piece list \<Rightarrow> nat \<Rightarrow> nat \<Rightarrow> store \<Rightarrow> store" where
  "generateLookups_loop T [] corners pieceNum lookup = lookup"
| "generateLookups_loop T (p # ps) corners pieceNum lookup =
     (let t = std_sort (sortTilesByEdge T) (rotations T p pieceNum) in
      if t_left T (t ! 0) = 0 \<and> t_top T (t ! 0) = 0 then
        (if corners = 0
         then generateLookups_loop T ps (corners + 1) (pieceNum + 1)
                (insert_range T (take 1 t) lookup)
         else generateLookups_loop T ps (corners + 1) (pieceNum + 1)
                (insert_range T (drop 1 t) lookup))
      else if t_left T (t ! 0) = t_right T (t ! 0) \<and> t_top T (t ! 0) = t_bottom T (t ! 0) then
        (if t_left T (t ! 0) = t_top T (t ! 0)
         then generateLookups_loop T ps corners (pieceNum + 1)
                (insert_range T (take 1 t) lookup)
         else generateLookups_loop T ps corners (pieceNum + 1)
                (insert_range T (take 2 t) lookup))
      else generateLookups_loop T ps corners (pieceNum + 1) (insert_range T t lookup))"

definition generateLookups :: "'a tile_type_scheme \<Rightarrow> piece list \<Rightarrow> store \<Rightarrow> store" where
  "generateLookups T pieces lookup = generateLookups_loop T pieces 0 0 lookup"

text \<open>The tile types of the three edge classes for 1x1 tiles, over a mask of \<open>n\<close> words.\<close>

definition tile_1x1 :: "edge_class \<Rightarrow> nat \<Rightarrow> tile_type" where
  "tile_1x1 C n = (case C of
       E8 \<Rightarrow> \<lparr>LR = 3, TB = 3, mask_length = n\<rparr>
     | E16 \<Rightarrow> \<lparr>LR = 4, TB = 4, mask_length = n\<rparr>
     | E32 \<Rightarrow> \<lparr>LR = 5, TB = 5, mask_length = n\<rparr>)"

section \<open>Lookup values as the specification describes them\<close>

text \<open>
  The layouts that fit a word, with room for the two border bits, and have no empty edge
  field: every \<^verbatim>\<open>lookup_..._val\<close> structure of \<^verbatim>\<open>lookup.h\<close> is one.
\<close>

definition layout_ok :: "'a tile_type_scheme \<Rightarrow> bool" where
  "layout_ok T = (0 < LR T \<and> 0 < TB T \<and> LR T + TB T + 2 \<le> 64)"

text \<open>
  The literal key of a tile: its left pattern, its top pattern and the two flags that say
  whether its right and its bottom pattern are not zero, packed as a lookup value.
\<close>

definition literal_key :: "'a tile_type_scheme \<Rightarrow> tile \<Rightarrow> lookup_index_type" where
  "literal_key T t =
     set_lookup_bottom T
       (set_lookup_right T
          (set_lookup_top T (set_lookup_left T 0 (t_left T t)) (t_top T t))
          (if t_right T t \<noteq> 0 then 1 else 0))
       (if t_bottom T t \<noteq> 0 then 1 else 0)"

text \<open>The wildcard variants of a key: the left, or the top, pattern replaced by all ones.\<close>

definition left_wildcard :: "'a tile_type_scheme \<Rightarrow> lookup_index_type \<Rightarrow> lookup_index_type" where
  "left_wildcard T k = set_lookup_left T k (mask (LR T))"

definition top_wildcard :: "'a tile_type_scheme \<Rightarrow> lookup_index_type \<Rightarrow> lookup_index_type" where
  "top_wildcard T k = set_lookup_top T k (mask (TB T))"

definition wildcard_variants :: "'a tile_type_scheme \<Rightarrow> lookup_index_type \<Rightarrow> lookup_index_type set" where
  "wildcard_variants T k =
     {left_wildcard T k, top_wildcard T k, left_wildcard T (top_wildcard T k)}"

text \<open>
  The keys the specification lists for \<^verbatim>\<open>insert\<close>: the literal key, and each wildcard
  variant whose replaced pattern is not zero in the tile.
\<close>

definition tile_keys :: "'a tile_type_scheme \<Rightarrow> tile \<Rightarrow> lookup_index_type set" where
  "tile_keys T t =
     {literal_key T t}
     \<union> (if t_left T t \<noteq> 0 then {left_wildcard T (literal_key T t)} else {})
     \<union> (if t_top T t \<noteq> 0 then {top_wildcard T (literal_key T t)} else {})
     \<union> (if t_left T t \<noteq> 0 \<and> t_top T t \<noteq> 0
        then {left_wildcard T (top_wildcard T (literal_key T t))} else {})"

section \<open>Placements (placement.h)\<close>

text \<open>
  A pointer to a placement is null, or points to the member \<^verbatim>\<open>junk_\<close> of the board at an
  address, or to an element of the vector \<^verbatim>\<open>placements_\<close> of the board at an address.
\<close>

datatype ptr = Null | Junk nat | Cell nat nat

record placement =
  p_lookup :: lookup_index_type
  p_tile :: "tile_ptr option"
  p_left :: ptr
  p_top :: ptr
  p_right :: ptr
  p_bottom :: ptr
  p_prev :: ptr
  p_next :: ptr

text \<open>\<^verbatim>\<open>zero\<close>, which the constructor calls: every member is zero.\<close>

definition placement_zero :: placement where
  "placement_zero = \<lparr>p_lookup = 0, p_tile = None, p_left = Null, p_top = Null,
     p_right = Null, p_bottom = Null, p_prev = Null, p_next = Null\<rparr>"

section \<open>Boards (board.h)\<close>

text \<open>The board types, and their values as sets of border bits.\<close>

datatype board_type = typeNormal | typeTopLeftCorner | typeTopEdge | typeTopRightCorner
  | typeLeftEdge | typeMiddle | typeRightEdge | typeBottomLeftCorner | typeBottomEdge
  | typeBottomRightCorner

definition LEFT_BORDER :: env_word_type where "LEFT_BORDER = 1"
definition TOP_BORDER :: env_word_type where "TOP_BORDER = 2"
definition RIGHT_BORDER :: env_word_type where "RIGHT_BORDER = 4"
definition BOTTOM_BORDER :: env_word_type where "BOTTOM_BORDER = 8"

fun type_value :: "board_type \<Rightarrow> env_word_type" where
  "type_value typeNormal = LEFT_BORDER OR TOP_BORDER OR RIGHT_BORDER OR BOTTOM_BORDER"
| "type_value typeTopLeftCorner = TOP_BORDER OR LEFT_BORDER"
| "type_value typeTopEdge = TOP_BORDER"
| "type_value typeTopRightCorner = TOP_BORDER OR RIGHT_BORDER"
| "type_value typeLeftEdge = LEFT_BORDER"
| "type_value typeMiddle = 0"
| "type_value typeRightEdge = RIGHT_BORDER"
| "type_value typeBottomLeftCorner = BOTTOM_BORDER OR LEFT_BORDER"
| "type_value typeBottomEdge = BOTTOM_BORDER"
| "type_value typeBottomRightCorner = BOTTOM_BORDER OR RIGHT_BORDER"

text \<open>
  A board. \<open>self\<close> is the address of the object: the pointers of its placements are
  absolute. \<open>lookups\<close> is the tile store that \<^verbatim>\<open>lookups_\<close> points to (the store is not
  written while a board is solved). \<open>cout\<close> is what the board has printed: for each
  printed solution, the tiles whose \<^verbatim>\<open>print\<close> was called, in the order of the calls.
  \<open>ext\<close> is the state that an override of \<^verbatim>\<open>complete\<close> acts on: for the boards that make
  larger tiles, the store that \<^verbatim>\<open>outputLookups_\<close> points to.
\<close>

record 'x board =
  self :: nat
  width :: nat
  height :: nat
  solutions :: nat
  print :: bool
  quit :: bool
  threaded :: bool
  placements :: "placement list"
  junk :: placement
  lookups :: store
  cout :: "tile_ptr list list"
  ext :: 'x

text \<open>
  How a run of the solver can stop other than by returning: \<^verbatim>\<open>exit\<close> was called (with the
  board as it was then), or a pointer that is null or does not point into the board was
  followed or a vector was indexed out of its range, or the recursion went deeper than the
  depth the model allows.
\<close>

datatype 'x halt = Exited "'x board" | BadPointer | DepthExceeded

text \<open>\<^verbatim>\<open>at( x, y )\<close>: the address of element \<^verbatim>\<open>(x * height_) + y\<close> of \<^verbatim>\<open>placements_\<close>.\<close>

definition at_xy :: "'x board \<Rightarrow> nat \<Rightarrow> nat \<Rightarrow> ptr" where
  "at_xy b x y = Cell (self b) (x * height b + y)"

text \<open>Reading and writing a placement through a pointer into the board.\<close>

definition deref :: "'x board \<Rightarrow> ptr \<Rightarrow> placement option" where
  "deref b p = (case p of
       Null \<Rightarrow> None
     | Junk a \<Rightarrow> (if a = self b then Some (junk b) else None)
     | Cell a i \<Rightarrow> (if a = self b \<and> i < length (placements b)
                     then Some (placements b ! i) else None))"

definition update :: "'x board \<Rightarrow> ptr \<Rightarrow> (placement \<Rightarrow> placement) \<Rightarrow> 'x board option" where
  "update b p f = (case p of
       Null \<Rightarrow> None
     | Junk a \<Rightarrow> (if a = self b then Some (b\<lparr>junk := f (junk b)\<rparr>) else None)
     | Cell a i \<Rightarrow> (if a = self b \<and> i < length (placements b)
                     then Some (b\<lparr>placements := (placements b)[i := f (placements b ! i)]\<rparr>)
                     else None))"

text \<open>
  The two nested loops over \<open>x\<close> and \<open>y\<close> that \<^verbatim>\<open>setType\<close>, \<^verbatim>\<open>initialize\<close> and the copy
  constructor run, applying \<open>f x y\<close> to the placement \<^verbatim>\<open>at( x, y )\<close>.
\<close>

definition for_xy :: "nat \<Rightarrow> nat \<Rightarrow> (nat \<Rightarrow> nat \<Rightarrow> placement \<Rightarrow> placement)
    \<Rightarrow> placement list \<Rightarrow> placement list" where
  "for_xy w h f ps =
     fold (\<lambda>x ps. fold (\<lambda>y ps. ps[x * h + y := f x y (ps ! (x * h + y))]) [0..<h] ps) [0..<w] ps"

text \<open>\<^verbatim>\<open>setType\<close>.\<close>

definition setType :: "'a tile_type_scheme \<Rightarrow> board_type \<Rightarrow> 'x board \<Rightarrow> 'x board" where
  "setType T v b =
     (let left = (LEFT_BORDER AND type_value v \<noteq> 0);
          top = (TOP_BORDER AND type_value v \<noteq> 0);
          right = (RIGHT_BORDER AND type_value v \<noteq> 0);
          bottom = (BOTTOM_BORDER AND type_value v \<noteq> 0)
      in b\<lparr>placements := for_xy (width b) (height b)
           (\<lambda>x y pl. pl\<lparr>p_lookup :=
              set_lookup_bottom T
                (set_lookup_right T
                  (set_lookup_top T
                    (set_lookup_left T (p_lookup pl) (if 0 = x \<and> left then 0 else LEFT_EDGE T))
                    (if 0 = y \<and> top then 0 else TOP_EDGE T))
                  (if x = width b - 1 \<and> right then 0 else 1))
                (if y = height b - 1 \<and> bottom then 0 else 1)\<rparr>)
           (placements b)\<rparr>)"

text \<open>
  \<^verbatim>\<open>initialize\<close>: the vector is resized to \<open>width * height\<close> placements (new ones are
  zero), the four neighbour pointers of every placement are set, and the type is set to
  the normal one.
\<close>

definition resize :: "nat \<Rightarrow> placement list \<Rightarrow> placement list" where
  "resize n ps = take n ps @ replicate (n - length ps) placement_zero"

definition initialize :: "'a tile_type_scheme \<Rightarrow> 'x board \<Rightarrow> 'x board" where
  "initialize T b =
     setType T typeNormal
       (b\<lparr>placements := for_xy (width b) (height b)
           (\<lambda>x y p. p\<lparr>p_left := (if 0 < x then at_xy b (x - 1) y else Junk (self b)),
                      p_top := (if 0 < y then at_xy b x (y - 1) else Junk (self b)),
                      p_right := (if x < width b - 1 then at_xy b (x + 1) y else Junk (self b)),
                      p_bottom := (if y < height b - 1 then at_xy b x (y + 1) else Junk (self b))\<rparr>)
           (resize (width b * height b) (placements b))\<rparr>)"

text \<open>\<^verbatim>\<open>generateTilePattern\<close>: the loop runs \<open>i\<close> from \<open>width * height - 1\<close> down to 0.\<close>

definition generateTilePattern :: "'x board \<Rightarrow> 'x board" where
  "generateTilePattern b =
     b\<lparr>placements := fold
         (\<lambda>i ps. ps[i := (ps ! i)\<lparr>
             p_prev := (if 0 < i then Cell (self b) (i - 1) else Null),
             p_next := (if i < width b * height b - 1 then Cell (self b) (i + 1) else Null)\<rparr>])
         (rev [0..<width b * height b]) (placements b)\<rparr>"

text \<open>
  The constructor of a board of \<open>w\<close> by \<open>h\<close> placements at the address \<open>a\<close>, and the copy
  constructor, which makes the copy at the address \<open>a\<close>: the base class copies the sizes
  and the print and quit options, the vector of placements and the junk placement are
  made anew, and the lookup value and the tile of every placement are copied.
\<close>

definition new_board :: "'a tile_type_scheme \<Rightarrow> nat \<Rightarrow> nat \<Rightarrow> nat \<Rightarrow> store \<Rightarrow> 'x \<Rightarrow> 'x board" where
  "new_board T a w h S e =
     generateTilePattern (initialize T
       \<lparr>self = a, width = w, height = h, solutions = 0, print = False, quit = False,
        threaded = False, placements = [], junk = placement_zero, lookups = S,
        cout = [], ext = e\<rparr>)"

definition copy_board :: "'a tile_type_scheme \<Rightarrow> nat \<Rightarrow> 'x board \<Rightarrow> 'x board" where
  "copy_board T a other =
     (let b = generateTilePattern (initialize T
        \<lparr>self = a, width = width other, height = height other, solutions = 0,
         print = print other, quit = quit other, threaded = False, placements = [],
         junk = placement_zero, lookups = lookups other, cout = [], ext = ext other\<rparr>)
      in b\<lparr>placements := for_xy (width b) (height b)
           (\<lambda>x y p. p\<lparr>p_lookup := p_lookup (placements other ! (x * height other + y)),
                      p_tile := p_tile (placements other ! (x * height other + y))\<rparr>)
           (placements b)\<rparr>)"

text \<open>
  \<^verbatim>\<open>placement::place\<close>, on the placement that \<open>p\<close> points to: the tile is set, the left
  field of the lookup value of the placement to the right and the top field of the one
  below are overwritten with the fields of the tile's first word, and the next placement
  is returned.
\<close>

definition place :: "'a tile_type_scheme \<Rightarrow> ptr \<Rightarrow> tile_ptr \<Rightarrow> 'x board \<Rightarrow> (ptr \<times> 'x board) option" where
  "place T p t b =
     (case update b p (\<lambda>c. c\<lparr>p_tile := Some t\<rparr>) of None \<Rightarrow> None
      | Some b1 \<Rightarrow>
     (case deref b1 p of None \<Rightarrow> None
      | Some c \<Rightarrow>
     (case update b1 (p_right c) (\<lambda>r. r\<lparr>p_lookup :=
              (p_lookup r AND MASK_LEFT_EDGE_INV T)
              OR (MASK_LEFT_EDGE T AND tile_lookup T (tile_list (lookups b) ! t))\<rparr>) of
        None \<Rightarrow> None
      | Some b2 \<Rightarrow>
     (case deref b2 p of None \<Rightarrow> None
      | Some c2 \<Rightarrow>
     (case update b2 (p_bottom c2) (\<lambda>r. r\<lparr>p_lookup :=
              (p_lookup r AND MASK_TOP_EDGE_INV T)
              OR (MASK_TOP_EDGE T AND tile_lookup T (tile_list (lookups b) ! t))\<rparr>) of
        None \<Rightarrow> None
      | Some b3 \<Rightarrow>
     (case deref b3 p of None \<Rightarrow> None
      | Some c3 \<Rightarrow> Some (p_next c3, b3)))))))"

text \<open>\<^verbatim>\<open>abstractBoard::complete\<close>.\<close>

definition complete :: "'x board \<Rightarrow> 'x halt + 'x board" where
  "complete b = Inr (b\<lparr>solutions := solutions b + 1\<rparr>)"

text \<open>
  \<^verbatim>\<open>solve_for\<close>. \<open>cmpl\<close> is the \<^verbatim>\<open>complete\<close> of the class of the board (the method is
  virtual). The first argument bounds the depth of the recursion: the source recurses as
  long as \<^verbatim>\<open>place\<close> returns a placement. \<open>solve_tiles\<close> is the loop over the array of
  tiles, with its counter \<open>i\<close> running down from the size of the array.
\<close>

fun solve_for :: "nat \<Rightarrow> 'a tile_type_scheme \<Rightarrow> ('x board \<Rightarrow> 'x halt + 'x board) \<Rightarrow> ptr
    \<Rightarrow> bitwiseMask \<Rightarrow> 'x board \<Rightarrow> 'x halt + 'x board"
and solve_tiles :: "nat \<Rightarrow> 'a tile_type_scheme \<Rightarrow> ('x board \<Rightarrow> 'x halt + 'x board) \<Rightarrow> ptr
    \<Rightarrow> bitwiseMask \<Rightarrow> tile_ptr list \<Rightarrow> nat \<Rightarrow> 'x board \<Rightarrow> 'x halt + 'x board"
where
  "solve_for 0 T cmpl p msk b = Inl DepthExceeded"
| "solve_for (Suc d) T cmpl p msk b =
     (case deref b p of None \<Rightarrow> Inl BadPointer
      | Some c \<Rightarrow>
          solve_tiles d T cmpl p msk (at (lookups b) (p_lookup c))
            (length (at (lookups b) (p_lookup c))) b)"
| "solve_tiles d T cmpl p msk arr 0 b = Inr b"
| "solve_tiles d T cmpl p msk arr (Suc i) b =
     (let t = arr ! i in
      if mask_shares msk (tile_mask (tile_list (lookups b) ! t))
      then solve_tiles d T cmpl p msk arr i b
      else
        (case place T p t b of None \<Rightarrow> Inl BadPointer
         | Some (nxt, b1) \<Rightarrow>
             if nxt \<noteq> Null then
               (case solve_for d T cmpl nxt
                       (copyCombine msk (tile_mask (tile_list (lookups b) ! t))) b1 of
                  Inl h \<Rightarrow> Inl h
                | Inr b2 \<Rightarrow> solve_tiles d T cmpl p msk arr i b2)
             else if print b1 then
               (case those (map p_tile (placements b1)) of None \<Rightarrow> Inl BadPointer
                | Some ts \<Rightarrow>
                    (let b2 = b1\<lparr>cout := cout b1 @ [ts]\<rparr> in
                     if quit b2 then Inl (Exited b2)
                     else solve_tiles d T cmpl p msk arr i
                            (b2\<lparr>solutions := solutions b2 + 1\<rparr>)))
             else
               (case cmpl b1 of Inl h \<Rightarrow> Inl h
                | Inr b2 \<Rightarrow> solve_tiles d T cmpl p msk arr i b2)))"

text \<open>
  \<^verbatim>\<open>board::solve\<close>. Without threads it solves from the first placement with an empty mask.
  With threads it makes, for every tile of the array of the first placement, a copy of
  the board (\<open>fresh k\<close> is the address of the \<open>k\<close>-th copy), places the tile on the first
  placement of the copy and solves the copy from the placement that \<^verbatim>\<open>place\<close> returned, as
  a task of its own; at the end it adds the solutions of the copies to its own. A task
  works on its copy only, so the copies are solved here one after the other, in the order
  in which the tasks are started; what they print is appended in that order. The window
  that bounds the number of running tasks only delays the start of a task.
\<close>

fun solve_workers :: "'a tile_type_scheme \<Rightarrow> ('x board \<Rightarrow> 'x halt + 'x board) \<Rightarrow> (nat \<Rightarrow> nat)
    \<Rightarrow> 'x board \<Rightarrow> tile_ptr list \<Rightarrow> nat \<Rightarrow> 'x board list \<Rightarrow> 'x halt + 'x board list" where
  "solve_workers T cmpl fresh b arr 0 boards = Inr boards"
| "solve_workers T cmpl fresh b arr (Suc i) boards =
     (let t = arr ! i;
          c = copy_board T (fresh (length boards)) b
      in case place T (at_xy c 0 0) t c of None \<Rightarrow> Inl BadPointer
         | Some (nxt, c1) \<Rightarrow>
             (case solve_for (length (placements c1)) T cmpl nxt
                     (tile_mask (tile_list (lookups b) ! t)) c1 of
                Inl h \<Rightarrow> Inl h
              | Inr c2 \<Rightarrow> solve_workers T cmpl fresh b arr i (boards @ [c2])))"

definition solve :: "'a tile_type_scheme \<Rightarrow> ('x board \<Rightarrow> 'x halt + 'x board) \<Rightarrow> (nat \<Rightarrow> nat)
    \<Rightarrow> 'x board \<Rightarrow> 'x halt + 'x board" where
  "solve T cmpl fresh b =
     (case deref b (Cell (self b) 0) of None \<Rightarrow> Inl BadPointer
      | Some p \<Rightarrow>
          if \<not> threaded b then
            solve_for (length (placements b)) T cmpl (Cell (self b) 0)
              (mask_zero (mask_length T)) b
          else
            (case solve_workers T cmpl fresh b (at (lookups b) (p_lookup p))
                    (length (at (lookups b) (p_lookup p))) [] of
               Inl h \<Rightarrow> Inl h
             | Inr boards \<Rightarrow>
                 Inr (b\<lparr>solutions := solutions b + sum_list (map solutions boards),
                        cout := cout b @ concat (map cout boards)\<rparr>)))"

section \<open>The boards that make larger tiles (boardv.h)\<close>

text \<open>
  \<^verbatim>\<open>verticalBoard::complete\<close>: the tiles of the two placements \<^verbatim>\<open>p0_\<close> (at 0, 0) and
  \<^verbatim>\<open>p1_\<close> (at 0, 1) are made into one tile of the output tile type \<open>T'\<close>, which is
  inserted into the output store.
\<close>

definition vertical_tile :: "'a tile_type_scheme \<Rightarrow> 'b tile_type_scheme \<Rightarrow> tile \<Rightarrow> tile \<Rightarrow> tile" where
  "vertical_tile T T' t0 t1 =
     make_tile T'
       (push_bit (LEFT_EDGE_BITS T) (t_left T t1) OR t_left T t0)
       (t_top T t0)
       (push_bit (LEFT_EDGE_BITS T) (t_right T t1) OR t_right T t0)
       (t_bottom T t1)
       (copyCombine (tile_mask t0) (tile_mask t1))"

definition vertical_complete ::
  "'a tile_type_scheme \<Rightarrow> 'b tile_type_scheme \<Rightarrow> store board \<Rightarrow> store halt + store board" where
  "vertical_complete T T' b =
     (case (deref b (at_xy b 0 0), deref b (at_xy b 0 1)) of
        (Some p0, Some p1) \<Rightarrow>
          (case (p_tile p0, p_tile p1) of
             (Some t0, Some t1) \<Rightarrow>
               Inr (b\<lparr>ext := insert_tile T'
                      (vertical_tile T T' (tile_list (lookups b) ! t0) (tile_list (lookups b) ! t1))
                      (ext b)\<rparr>)
           | _ \<Rightarrow> Inl BadPointer)
      | _ \<Rightarrow> Inl BadPointer)"

text \<open>
  The run over the nine board types that \<^verbatim>\<open>verticalBoard::solve\<close> makes: the type of
  the board is set to each in turn and the board copied; then every copy is solved from
  its first placement with an empty mask. The copies share the output store: each starts
  with the store as the one before left it. With threads the nine copies are solved as
  nine tasks, which insert into the shared output store under its lock; they are solved
  here in the same order as without threads.
\<close>

definition nine_types :: "board_type list" where
  "nine_types = [typeTopLeftCorner, typeTopEdge, typeTopRightCorner, typeLeftEdge, typeMiddle,
     typeRightEdge, typeBottomLeftCorner, typeBottomEdge, typeBottomRightCorner]"

fun copies_of :: "'a tile_type_scheme \<Rightarrow> (nat \<Rightarrow> nat) \<Rightarrow> 'x board \<Rightarrow> board_type list
    \<Rightarrow> 'x board list \<Rightarrow> 'x board list" where
  "copies_of T fresh b [] boards = boards"
| "copies_of T fresh b (v # vs) boards =
     copies_of T fresh (setType T v b) vs
       (boards @ [copy_board T (fresh (length boards)) (setType T v b)])"

fun solve_copies :: "'a tile_type_scheme \<Rightarrow> ('x board \<Rightarrow> 'x halt + 'x board) \<Rightarrow> 'x board list
    \<Rightarrow> 'x \<Rightarrow> 'x halt + 'x" where
  "solve_copies T cmpl [] out = Inr out"
| "solve_copies T cmpl (c # cs) out =
     (case solve_for (length (placements c)) T cmpl (at_xy c 0 0)
             (mask_zero (mask_length T)) (c\<lparr>ext := out\<rparr>) of
        Inl h \<Rightarrow> Inl h
      | Inr c' \<Rightarrow> solve_copies T cmpl cs (ext c'))"

definition vertical_solve :: "'a tile_type_scheme \<Rightarrow> 'b tile_type_scheme \<Rightarrow> (nat \<Rightarrow> nat)
    \<Rightarrow> store board \<Rightarrow> store halt + store" where
  "vertical_solve T T' fresh b =
     solve_copies T (vertical_complete T T') (copies_of T fresh b nine_types []) (ext b)"

text \<open>
  The constructor of a vertical board at the address \<open>a\<close>: a board of 1 by 2 placements
  over the input store, with the output store.
\<close>

definition verticalBoard :: "'a tile_type_scheme \<Rightarrow> nat \<Rightarrow> store \<Rightarrow> store \<Rightarrow> store board" where
  "verticalBoard T a lookups0 outputLookups = new_board T a 1 2 lookups0 outputLookups"

section \<open>The horizontal board\<close>

text \<open>
  Modelled from the spec: the header \<^verbatim>\<open>boardh.h\<close> with the class \<^verbatim>\<open>horizontalBoard\<close> is not
  among the sources. The specification describes it as the 2 by 1 counterpart of the
  vertical board: it runs the solver for the nine border types on a grid of two
  placements side by side, and fuses the two placed tiles into one whose top and bottom
  patterns are the concatenations of the two tiles' top and bottom patterns, whose left
  pattern is the left tile's, whose right pattern is the right tile's, and whose mask is
  the union of the two masks.
\<close>

definition horizontal_tile :: "'a tile_type_scheme \<Rightarrow> 'b tile_type_scheme \<Rightarrow> tile \<Rightarrow> tile \<Rightarrow> tile" where
  "horizontal_tile T T' t0 t1 =
     make_tile T'
       (t_left T t0)
       (push_bit (TOP_EDGE_BITS T) (t_top T t1) OR t_top T t0)
       (t_right T t1)
       (push_bit (TOP_EDGE_BITS T) (t_bottom T t1) OR t_bottom T t0)
       (copyCombine (tile_mask t0) (tile_mask t1))"

definition horizontal_complete ::
  "'a tile_type_scheme \<Rightarrow> 'b tile_type_scheme \<Rightarrow> store board \<Rightarrow> store halt + store board" where
  "horizontal_complete T T' b =
     (case (deref b (at_xy b 0 0), deref b (at_xy b 1 0)) of
        (Some p0, Some p1) \<Rightarrow>
          (case (p_tile p0, p_tile p1) of
             (Some t0, Some t1) \<Rightarrow>
               Inr (b\<lparr>ext := insert_tile T'
                      (horizontal_tile T T' (tile_list (lookups b) ! t0) (tile_list (lookups b) ! t1))
                      (ext b)\<rparr>)
           | _ \<Rightarrow> Inl BadPointer)
      | _ \<Rightarrow> Inl BadPointer)"

definition horizontal_solve :: "'a tile_type_scheme \<Rightarrow> 'b tile_type_scheme \<Rightarrow> (nat \<Rightarrow> nat)
    \<Rightarrow> store board \<Rightarrow> store halt + store" where
  "horizontal_solve T T' fresh b =
     solve_copies T (horizontal_complete T T') (copies_of T fresh b nine_types []) (ext b)"

definition horizontalBoard :: "'a tile_type_scheme \<Rightarrow> nat \<Rightarrow> store \<Rightarrow> store \<Rightarrow> store board" where
  "horizontalBoard T a lookups0 outputLookups = new_board T a 2 1 lookups0 outputLookups"

section \<open>The search as a function of the tiles placed so far\<close>

text \<open>The border flags of a board type.\<close>

definition left_border :: "board_type \<Rightarrow> bool" where
  "left_border v = (LEFT_BORDER AND type_value v \<noteq> 0)"

definition top_border :: "board_type \<Rightarrow> bool" where
  "top_border v = (TOP_BORDER AND type_value v \<noteq> 0)"

definition right_border :: "board_type \<Rightarrow> bool" where
  "right_border v = (RIGHT_BORDER AND type_value v \<noteq> 0)"

definition bottom_border :: "board_type \<Rightarrow> bool" where
  "bottom_border v = (BOTTOM_BORDER AND type_value v \<noteq> 0)"

text \<open>A lookup value made of its four fields.\<close>

definition mk_key :: "'a tile_type_scheme \<Rightarrow> env_word_type \<Rightarrow> env_word_type \<Rightarrow> env_word_type
    \<Rightarrow> env_word_type \<Rightarrow> lookup_index_type" where
  "mk_key T l t r b =
     set_lookup_bottom T (set_lookup_right T (set_lookup_top T (set_lookup_left T 0 l) t) r) b"

text \<open>
  The lookup value of the next placement to fill, as the specification describes it: when
  the tiles \<open>ts\<close> are placed on the first \<open>length ts\<close> placements (in column-major order) of
  a board of \<open>w\<close> by \<open>h\<close> placements of type \<open>v\<close>, the left pattern is 0 on a left border,
  the wildcard in the first column otherwise, and the right pattern of the tile to the left
  in any other column; likewise for the top; the two flags are 0 on a right or bottom
  border and 1 elsewhere.
\<close>

definition cell_key :: "'a tile_type_scheme \<Rightarrow> store \<Rightarrow> nat \<Rightarrow> nat \<Rightarrow> board_type
    \<Rightarrow> tile_ptr list \<Rightarrow> lookup_index_type" where
  "cell_key T S w h v ts =
     (let i = length ts; x = i div h; y = i mod h in
      mk_key T
        (if x = 0 then (if left_border v then 0 else mask (LR T))
         else t_right T (tile_list S ! (ts ! (i - h))))
        (if y = 0 then (if top_border v then 0 else mask (TB T))
         else t_bottom T (tile_list S ! (ts ! (i - 1))))
        (if x = w - 1 \<and> right_border v then 0 else 1)
        (if y = h - 1 \<and> bottom_border v then 0 else 1))"

text \<open>
  The solutions that the search finds from the tiles \<open>ts\<close> placed so far and the mask
  \<open>msk\<close> of their pieces, in the order in which it finds them: each is the list of the
  tiles of all placements.
\<close>

fun search :: "nat \<Rightarrow> 'a tile_type_scheme \<Rightarrow> store \<Rightarrow> nat \<Rightarrow> nat \<Rightarrow> board_type
    \<Rightarrow> tile_ptr list \<Rightarrow> bitwiseMask \<Rightarrow> tile_ptr list list"
and search_tiles :: "nat \<Rightarrow> 'a tile_type_scheme \<Rightarrow> store \<Rightarrow> nat \<Rightarrow> nat \<Rightarrow> board_type
    \<Rightarrow> tile_ptr list \<Rightarrow> bitwiseMask \<Rightarrow> tile_ptr list \<Rightarrow> nat \<Rightarrow> tile_ptr list list"
where
  "search 0 T S w h v ts msk = []"
| "search (Suc d) T S w h v ts msk =
     search_tiles d T S w h v ts msk (at S (cell_key T S w h v ts))
       (length (at S (cell_key T S w h v ts)))"
| "search_tiles d T S w h v ts msk arr 0 = []"
| "search_tiles d T S w h v ts msk arr (Suc i) =
     (let t = arr ! i in
      if mask_shares msk (tile_mask (tile_list S ! t))
      then search_tiles d T S w h v ts msk arr i
      else (if length ts + 1 < w * h
            then search d T S w h v (ts @ [t]) (copyCombine msk (tile_mask (tile_list S ! t)))
            else [ts @ [t]])
           @ search_tiles d T S w h v ts msk arr i)"

text \<open>
  What a found solution does to the output, the solution counter and the state of
  \<^verbatim>\<open>complete\<close>: the tail of the body of the loop of \<^verbatim>\<open>solve_for\<close>, for a \<^verbatim>\<open>complete\<close> that
  maps the counter and its state by \<open>g\<close>. The result says whether \<^verbatim>\<open>exit\<close> was called.
\<close>

fun deliver :: "bool \<Rightarrow> bool \<Rightarrow> (tile_ptr list \<Rightarrow> nat \<times> 'x \<Rightarrow> nat \<times> 'x) \<Rightarrow> tile_ptr list list
    \<Rightarrow> tile_ptr list list \<times> nat \<times> 'x \<Rightarrow> bool \<times> tile_ptr list list \<times> nat \<times> 'x" where
  "deliver pr qt g [] c = (False, c)"
| "deliver pr qt g (s # ss) (co, n, e) =
     (if pr then (if qt then (True, (co @ [s], n, e)) else deliver pr qt g ss (co @ [s], n + 1, e))
      else deliver pr qt g ss (co, g s (n, e)))"

section \<open>Concrete inputs\<close>

text \<open>Two one-piece puzzles, with highest colours 7 and 31.\<close>

definition pieces_max7 :: "piece list" where
  "pieces_max7 = [\<lparr>left = 0, top = 0, right = 1, bottom = 7\<rparr>]"

definition pieces_max31 :: "piece list" where
  "pieces_max31 = [\<lparr>left = 0, top = 0, right = 0, bottom = 31\<rparr>]"

text \<open>Two 1x1 tiles of the 8 colour class: the second has a border on its left and right.\<close>

definition tile_A :: tile where
  "tile_A = \<lparr>val_left = 3, val_top = 0, val_right = 2, val_bottom = 4,
     tile_mask = [1], random = 0\<rparr>"

definition tile_B :: tile where
  "tile_B = \<lparr>val_left = 0, val_top = 5, val_right = 0, val_bottom = 1,
     tile_mask = [2], random = 0\<rparr>"

section \<open>Bit-fields and masks\<close>

lemma generateMask_eq_mask: "generateMask n = mask n"
proof (induction n)
  case 0
  then show ?case by simp
next
  case (Suc n)
  have "push_bit 1 (mask n :: env_word_type) OR 1 = mask (Suc n)"
    by (simp add: mask_Suc_double push_bit_eq_mult or.commute mult.commute)
  with Suc show ?case by simp
qed

lemma drop_bit_1_mask_Suc:
  assumes "Suc n \<le> 64"
  shows "drop_bit (Suc 0) (mask (Suc n) :: env_word_type) = mask n"
proof (rule bit_word_eqI)
  fix i assume "i < LENGTH(64)"
  then show "bit (drop_bit (Suc 0) (mask (Suc n) :: env_word_type)) i = bit (mask n :: env_word_type) i"
    using assms by (auto simp add: bit_simps)
qed

lemma numBits_mask: "n \<le> 64 \<Longrightarrow> numBits (mask n) = n"
proof (induction n)
  case 0
  then show ?case by (subst numBits.simps) simp
next
  case (Suc n)
  have "odd (mask (Suc n) :: env_word_type)"
    by (simp only: even_mask_iff)
  then have a: "(mask (Suc n) :: env_word_type) AND 1 \<noteq> 0"
    unfolding and_one_eq by (simp add: odd_iff_mod_2_eq_one)
  have b: "drop_bit 1 (mask (Suc n) :: env_word_type) = mask n"
    using Suc.prems drop_bit_1_mask_Suc by simp
  have "numBits (mask (Suc n)) = 1 + numBits (drop_bit 1 (mask (Suc n)))"
    using a by (subst numBits.simps) simp
  with Suc b show ?case by simp
qed


lemma LEFT_EDGE_BITS_eq: "layout_ok T \<Longrightarrow> LEFT_EDGE_BITS T = LR T"
  by (simp add: LEFT_EDGE_BITS_def LEFT_EDGE_def generateMask_eq_mask numBits_mask layout_ok_def)

lemma TOP_EDGE_BITS_eq: "layout_ok T \<Longrightarrow> TOP_EDGE_BITS T = TB T"
  by (simp add: TOP_EDGE_BITS_def TOP_EDGE_def generateMask_eq_mask numBits_mask layout_ok_def)

lemma MASK_LEFT_EDGE_eq: "MASK_LEFT_EDGE T = mask (LR T)"
  by (simp add: MASK_LEFT_EDGE_def LEFT_EDGE_def generateMask_eq_mask)

lemma MASK_TOP_EDGE_eq: "layout_ok T \<Longrightarrow> MASK_TOP_EDGE T = push_bit (LR T) (mask (TB T))"
  by (simp add: MASK_TOP_EDGE_def TOP_EDGE_def generateMask_eq_mask LEFT_EDGE_BITS_eq)

lemma no_high_bit: "\<not> i < 64 \<Longrightarrow> \<not> bit (y :: env_word_type) i"
  using bit_imp_le_length by fastforce

lemma bit_get_field:
  "bit (get_field off w x) i \<longleftrightarrow> i < w \<and> bit x (off + i)"
  by (simp add: get_field_def bit_take_bit_iff bit_drop_bit_eq)

lemma bit_set_field:
  "bit (set_field off w x v) i \<longleftrightarrow>
     (if off \<le> i \<and> i < off + w then i < 64 \<and> bit v (i - off) else bit x i)"
proof (cases "i < 64")
  case True
  have "i - off < 64" using True by simp
  with True show ?thesis
    by (simp add: set_field_def bit_and_iff bit_or_iff bit_not_iff bit_push_bit_iff
        bit_take_bit_iff Word.bit_mask_iff) auto
next
  case False
  then show ?thesis by (simp add: no_high_bit)
qed

lemma get_set_same:
  "off + w \<le> 64 \<Longrightarrow> get_field off w (set_field off w x v) = take_bit w v"
  by (rule bit_word_eqI) (auto simp add: bit_get_field bit_set_field bit_take_bit_iff)

lemma get_set_other:
  "off1 + w1 \<le> off2 \<or> off2 + w2 \<le> off1 \<Longrightarrow>
   get_field off1 w1 (set_field off2 w2 x v) = get_field off1 w1 x"
  by (rule bit_word_eqI) (auto simp add: bit_get_field bit_set_field)

lemma get_field_0: "get_field off w 0 = 0"
  by (simp add: get_field_def)

lemma or_mask_eq_set_field:
  "off + w \<le> 64 \<Longrightarrow> push_bit off (mask w) OR k = set_field off w k (mask w)"
  by (rule bit_word_eqI)
    (auto simp add: bit_set_field bit_or_iff bit_push_bit_iff Word.bit_mask_iff)

lemma and_mask_eq_get_field:
  "off + w \<le> 64 \<Longrightarrow> (push_bit off (mask w) AND k \<noteq> 0) = (get_field off w k \<noteq> 0)"
proof -
  assume h: "off + w \<le> 64"
  have "push_bit off (mask w) AND k = push_bit off (get_field off w k)"
    using h by - (rule bit_word_eqI,
      auto simp add: bit_get_field bit_and_iff bit_push_bit_iff Word.bit_mask_iff)
  moreover have "(push_bit off (get_field off w k) = 0) = (get_field off w k = 0)"
  proof
    assume z: "push_bit off (get_field off w k) = 0"
    show "get_field off w k = 0"
    proof (rule bit_word_eqI)
      fix i assume "i < LENGTH(64)"
      have "bit (push_bit off (get_field off w k)) (off + i) = False"
        using z by simp
      then show "bit (get_field off w k) i = bit (0::env_word_type) i"
        using h by (auto simp add: bit_push_bit_iff bit_get_field)
    qed
  qed simp
  ultimately show ?thesis by simp
qed

section \<open>Keys of tiles\<close>

lemma mask_nonzero: "0 < n \<Longrightarrow> (mask n :: env_word_type) \<noteq> 0"
proof
  assume "0 < n" and z: "(mask n :: env_word_type) = 0"
  have "bit (mask n :: env_word_type) 0" using \<open>0 < n\<close> by (simp add: Word.bit_mask_iff)
  then show False using z by simp
qed

lemma tile_word1_eq:
  assumes "layout_ok T"
  shows "tile_word1 T t = set_lookup_top T (set_lookup_left T 0 (t_left T t)) (t_top T t)"
  using assms
  by - (rule bit_word_eqI, auto simp add: tile_word1_def set_lookup_top_def set_lookup_left_def
      bit_set_field bit_or_iff bit_push_bit_iff t_left_def t_top_def bit_take_bit_iff layout_ok_def)

lemma tile_index_eq_literal_key: "layout_ok T \<Longrightarrow> tile_index T t = literal_key T t"
  by (simp add: tile_index_def literal_key_def tile_word1_eq)

lemma lookup_left_literal_key: "layout_ok T \<Longrightarrow> lookup_left T (literal_key T t) = t_left T t"
  by (simp add: layout_ok_def lookup_left_def literal_key_def set_lookup_bottom_def
      set_lookup_right_def set_lookup_top_def set_lookup_left_def get_set_other get_set_same
      t_left_def)

lemma lookup_top_literal_key: "layout_ok T \<Longrightarrow> lookup_top T (literal_key T t) = t_top T t"
  by (simp add: layout_ok_def lookup_top_def literal_key_def set_lookup_bottom_def
      set_lookup_right_def set_lookup_top_def set_lookup_left_def get_set_other get_set_same
      t_top_def)

lemma lookup_right_literal_key:
  "layout_ok T \<Longrightarrow> lookup_right T (literal_key T t) = (if t_right T t \<noteq> 0 then 1 else 0)"
  by (simp add: layout_ok_def lookup_right_def literal_key_def set_lookup_bottom_def
      set_lookup_right_def set_lookup_top_def set_lookup_left_def get_set_other get_set_same)

lemma lookup_bottom_literal_key:
  "layout_ok T \<Longrightarrow> lookup_bottom T (literal_key T t) = (if t_bottom T t \<noteq> 0 then 1 else 0)"
  by (simp add: layout_ok_def lookup_bottom_def literal_key_def set_lookup_bottom_def
      set_lookup_right_def set_lookup_top_def set_lookup_left_def get_set_other get_set_same)

lemma left_mask_or: "layout_ok T \<Longrightarrow> MASK_LEFT_EDGE T OR k = left_wildcard T k"
  using or_mask_eq_set_field [of 0 "LR T" k]
  by (simp add: MASK_LEFT_EDGE_eq left_wildcard_def set_lookup_left_def layout_ok_def)

lemma top_mask_or: "layout_ok T \<Longrightarrow> MASK_TOP_EDGE T OR k = top_wildcard T k"
  using or_mask_eq_set_field [of "LR T" "TB T" k]
  by (simp add: MASK_TOP_EDGE_eq top_wildcard_def set_lookup_top_def layout_ok_def)

lemma corner_mask_or:
  "layout_ok T \<Longrightarrow> MASK_UL_CORNER T OR k = left_wildcard T (top_wildcard T k)"
proof -
  assume h: "layout_ok T"
  have "MASK_UL_CORNER T OR k = MASK_LEFT_EDGE T OR (MASK_TOP_EDGE T OR k)"
    by (simp only: MASK_UL_CORNER_def or.assoc)
  then show ?thesis by (simp only: left_mask_or [OF h] top_mask_or [OF h])
qed

lemma left_mask_and: "layout_ok T \<Longrightarrow> (MASK_LEFT_EDGE T AND k \<noteq> 0) = (lookup_left T k \<noteq> 0)"
  using and_mask_eq_get_field [of 0 "LR T" k]
  by (simp add: MASK_LEFT_EDGE_eq lookup_left_def layout_ok_def)

lemma top_mask_and: "layout_ok T \<Longrightarrow> (MASK_TOP_EDGE T AND k \<noteq> 0) = (lookup_top T k \<noteq> 0)"
  using and_mask_eq_get_field [of "LR T" "TB T" k]
  by (simp add: MASK_TOP_EDGE_eq lookup_top_def layout_ok_def)

lemma lookup_left_left_wildcard: "layout_ok T \<Longrightarrow> lookup_left T (left_wildcard T k) = mask (LR T)"
  by (simp add: layout_ok_def lookup_left_def left_wildcard_def set_lookup_left_def get_set_same)

lemma lookup_top_left_wildcard: "layout_ok T \<Longrightarrow> lookup_top T (left_wildcard T k) = lookup_top T k"
  by (simp add: layout_ok_def lookup_top_def left_wildcard_def set_lookup_left_def get_set_other)

lemma lookup_right_left_wildcard: "layout_ok T \<Longrightarrow> lookup_right T (left_wildcard T k) = lookup_right T k"
  by (simp add: layout_ok_def lookup_right_def left_wildcard_def set_lookup_left_def get_set_other)

lemma lookup_bottom_left_wildcard: "layout_ok T \<Longrightarrow> lookup_bottom T (left_wildcard T k) = lookup_bottom T k"
  by (simp add: layout_ok_def lookup_bottom_def left_wildcard_def set_lookup_left_def get_set_other)

lemma lookup_left_top_wildcard: "layout_ok T \<Longrightarrow> lookup_left T (top_wildcard T k) = lookup_left T k"
  by (simp add: layout_ok_def lookup_left_def top_wildcard_def set_lookup_top_def get_set_other)

lemma lookup_top_top_wildcard: "layout_ok T \<Longrightarrow> lookup_top T (top_wildcard T k) = mask (TB T)"
  by (simp add: layout_ok_def lookup_top_def top_wildcard_def set_lookup_top_def get_set_same)

lemma lookup_right_top_wildcard: "layout_ok T \<Longrightarrow> lookup_right T (top_wildcard T k) = lookup_right T k"
  by (simp add: layout_ok_def lookup_right_def top_wildcard_def set_lookup_top_def get_set_other)

lemma lookup_bottom_top_wildcard: "layout_ok T \<Longrightarrow> lookup_bottom T (top_wildcard T k) = lookup_bottom T k"
  by (simp add: layout_ok_def lookup_bottom_def top_wildcard_def set_lookup_top_def get_set_other)


lemma at_insert_tile:
  "at (insert_tile T t S) k = at S k
     @ (if k = tile_index T t then [length (tile_list S)] else [])
     @ (if MASK_LEFT_EDGE T AND tile_index T t \<noteq> 0 \<and> k = (MASK_LEFT_EDGE T OR tile_index T t)
        then [length (tile_list S)] else [])
     @ (if MASK_TOP_EDGE T AND tile_index T t \<noteq> 0 \<and> k = (MASK_TOP_EDGE T OR tile_index T t)
        then [length (tile_list S)] else [])
     @ (if MASK_LEFT_EDGE T AND tile_index T t \<noteq> 0 \<and> MASK_TOP_EDGE T AND tile_index T t \<noteq> 0
          \<and> k = (MASK_UL_CORNER T OR tile_index T t)
        then [length (tile_list S)] else [])"
  by (simp add: insert_tile_def Let_def insert_or_assign_def at_def)

lemma tile_list_insert_tile: "tile_list (insert_tile T t S) = tile_list S @ [t]"
  by (simp add: insert_tile_def Let_def insert_or_assign_def)

lemma mem_at_insert_tile:
  assumes "layout_ok T"
  shows "(i \<in> set (at (insert_tile T t S) k)) =
     (i \<in> set (at S k) \<or> (i = length (tile_list S) \<and> k \<in> tile_keys T t))"
  using assms
  by (auto simp add: at_insert_tile tile_keys_def tile_index_eq_literal_key left_mask_or
      top_mask_or corner_mask_or left_mask_and top_mask_and lookup_left_literal_key
      lookup_top_literal_key)

lemma tile_keys_literal: "literal_key T t \<in> tile_keys T t"
  by (simp add: tile_keys_def)

lemma tile_keys_subset:
  "k \<in> tile_keys T t \<Longrightarrow> k = literal_key T t \<or> k \<in> wildcard_variants T (literal_key T t)"
  by (auto simp add: tile_keys_def wildcard_variants_def split: if_splits)

lemma tile_keys_left:
  assumes "layout_ok T"
  shows "(left_wildcard T (literal_key T t) \<in> tile_keys T t) = (t_left T t \<noteq> 0)"
proof
  assume "t_left T t \<noteq> 0"
  then show "left_wildcard T (literal_key T t) \<in> tile_keys T t"
    by (simp add: tile_keys_def)
next
  assume m: "left_wildcard T (literal_key T t) \<in> tile_keys T t"
  show "t_left T t \<noteq> 0"
  proof
    assume z: "t_left T t = 0"
    have nz: "(mask (LR T) :: env_word_type) \<noteq> 0"
      using assms by (simp add: mask_nonzero layout_ok_def)
    from m z have "left_wildcard T (literal_key T t) = literal_key T t
        \<or> left_wildcard T (literal_key T t) = top_wildcard T (literal_key T t)"
      by (auto simp add: tile_keys_def split: if_splits)
    then have "lookup_left T (left_wildcard T (literal_key T t)) = lookup_left T (literal_key T t)"
      using assms by (metis lookup_left_top_wildcard)
    then show False
      using assms z nz by (simp add: lookup_left_left_wildcard lookup_left_literal_key)
  qed
qed

lemma tile_keys_top:
  assumes "layout_ok T"
  shows "(top_wildcard T (literal_key T t) \<in> tile_keys T t) = (t_top T t \<noteq> 0)"
proof
  assume "t_top T t \<noteq> 0"
  then show "top_wildcard T (literal_key T t) \<in> tile_keys T t"
    by (simp add: tile_keys_def)
next
  assume m: "top_wildcard T (literal_key T t) \<in> tile_keys T t"
  show "t_top T t \<noteq> 0"
  proof
    assume z: "t_top T t = 0"
    have nz: "(mask (TB T) :: env_word_type) \<noteq> 0"
      using assms by (simp add: mask_nonzero layout_ok_def)
    from m z have "top_wildcard T (literal_key T t) = literal_key T t
        \<or> top_wildcard T (literal_key T t) = left_wildcard T (literal_key T t)"
      by (auto simp add: tile_keys_def split: if_splits)
    then have "lookup_top T (top_wildcard T (literal_key T t)) = lookup_top T (literal_key T t)"
      using assms by (metis lookup_top_left_wildcard)
    then show False
      using assms z nz by (simp add: lookup_top_top_wildcard lookup_top_literal_key)
  qed
qed

lemma tile_keys_both:
  assumes "layout_ok T"
  shows "(left_wildcard T (top_wildcard T (literal_key T t)) \<in> tile_keys T t)
     = (t_left T t \<noteq> 0 \<and> t_top T t \<noteq> 0)"
proof
  assume "t_left T t \<noteq> 0 \<and> t_top T t \<noteq> 0"
  then show "left_wildcard T (top_wildcard T (literal_key T t)) \<in> tile_keys T t"
    by (simp add: tile_keys_def)
next
  let ?k = "literal_key T t"
  let ?b = "left_wildcard T (top_wildcard T ?k)"
  assume m: "?b \<in> tile_keys T t"
  have nzl: "(mask (LR T) :: env_word_type) \<noteq> 0" and nzt: "(mask (TB T) :: env_word_type) \<noteq> 0"
    using assms by (simp_all add: mask_nonzero layout_ok_def)
  have bl: "lookup_left T ?b = mask (LR T)" and bt: "lookup_top T ?b = mask (TB T)"
    using assms by (simp_all add: lookup_left_left_wildcard lookup_top_left_wildcard
        lookup_top_top_wildcard)
  have l: "t_left T t \<noteq> 0"
  proof
    assume z: "t_left T t = 0"
    with m have "?b = ?k \<or> ?b = top_wildcard T ?k"
      by (auto simp add: tile_keys_def split: if_splits)
    then have "lookup_left T ?b = lookup_left T ?k"
      using assms by (metis lookup_left_top_wildcard)
    then show False using assms z nzl bl by (simp add: lookup_left_literal_key)
  qed
  have t: "t_top T t \<noteq> 0"
  proof
    assume z: "t_top T t = 0"
    with m have "?b = ?k \<or> ?b = left_wildcard T ?k"
      by (auto simp add: tile_keys_def split: if_splits)
    then have "lookup_top T ?b = lookup_top T ?k"
      using assms by (metis lookup_top_left_wildcard)
    then show False using assms z nzt bt by (simp add: lookup_top_literal_key)
  qed
  from l t show "t_left T t \<noteq> 0 \<and> t_top T t \<noteq> 0" by simp
qed

lemma insert_range_snoc: "insert_range T (ts @ [t]) S = insert_tile T t (insert_range T ts S)"
  by (simp add: insert_range_def)

lemma tile_list_insert_range: "tile_list (insert_range T ts S) = tile_list S @ ts"
  by (induction ts arbitrary: S) (simp_all add: insert_range_def tile_list_insert_tile)

lemma mem_at_insert_range:
  assumes "layout_ok T"
  shows "(i \<in> set (at (insert_range T ts store_empty) k)) =
     (i < length ts \<and> k \<in> tile_keys T (ts ! i))"
proof (induction ts rule: rev_induct)
  case Nil
  then show ?case by (simp add: insert_range_def store_empty_def at_def)
next
  case (snoc t ts)
  have "tile_list (insert_range T ts store_empty) = ts"
    by (simp add: tile_list_insert_range store_empty_def)
  then show ?case
    using snoc
    by (auto simp add: insert_range_snoc mem_at_insert_tile [OF assms] nth_append less_Suc_eq)
qed

section \<open>The highest colour\<close>

lemma raise_edge_max: "raise_edge e v = max e v"
  by (auto simp: raise_edge_def max_def)

lemma fold_edges_step_Max:
  "fold edges_step pieces e = Max (insert e (colours pieces))"
proof (induction pieces arbitrary: e)
  case Nil
  then show ?case by (simp add: colours_def)
next
  case (Cons p ps)
  have fin: "finite (colours ps)" by (simp add: colours_def)
  have "colours (p # ps) = {left p, top p, right p, bottom p} \<union> colours ps"
    by (simp add: colours_def)
  moreover have "Max (insert (edges_step p e) (colours ps))
      = Max (insert e ({left p, top p, right p, bottom p} \<union> colours ps))"
  proof (cases "colours ps = {}")
    case True
    then show ?thesis
      by (simp add: edges_step_def raise_edge_max max.commute max.left_commute)
  next
    case False
    then show ?thesis using fin
      by (simp add: edges_step_def raise_edge_max max.commute max.left_commute max.assoc)
  qed
  ultimately show ?case using Cons.IH by simp
qed

lemma highest_edge_Max: "pieces \<noteq> [] \<Longrightarrow> highest_edge pieces = Max (colours pieces)"
proof -
  assume ne: "pieces \<noteq> []"
  then obtain p ps where "pieces = p # ps" by (cases pieces) auto
  then have nonempty: "colours pieces \<noteq> {}" by (simp add: colours_def)
  have fin: "finite (colours pieces)" by (simp add: colours_def)
  have "Max (insert 0 (colours pieces)) = max 0 (Max (colours pieces))"
    using fin nonempty by simp
  then show ?thesis
    by (simp add: highest_edge_def fold_edges_step_Max max_def)
qed

lemma unat_plus_one: "(w::64 word) \<noteq> - 1 \<Longrightarrow> unat (w + 1) = unat w + 1"
  by (metis add.commute unatSuc Suc_eq_plus1 add_eq_0_iff2 add.right_neutral)

section \<open>The driver's choices\<close>

text \<open>
  Claim C4, as the code has it. When the driver solves a puzzle none of whose colours is
  \<open>2 ^ 64 - 1\<close>, the edge class it solves with is the smallest of 8, 16 and 32 colours
  that is greater than \<open>MAX_EDGE + 1\<close>, where \<open>MAX_EDGE\<close> is the highest colour of the
  loaded pieces. A puzzle with \<open>MAX_EDGE = 6\<close> is solved in the 8 colour class; puzzles
  with \<open>MAX_EDGE = 7\<close> and with \<open>MAX_EDGE = 8\<close> are both solved in the 16 colour class.
\<close>

theorem edge_class_smallest:
  assumes "pieces \<noteq> []" and "Max (colours pieces) \<noteq> - 1"
    and "main_dispatch pieces = Solve M C"
  shows "unat (Max (colours pieces)) + 1 < class_colours C
    \<and> (\<forall>C'. unat (Max (colours pieces)) + 1 < class_colours C' \<longrightarrow> class_colours C \<le> class_colours C')
    \<and> (Max (colours pieces) = 6 \<longrightarrow> C = E8)
    \<and> (Max (colours pieces) = 7 \<longrightarrow> C = E16)
    \<and> (Max (colours pieces) = 8 \<longrightarrow> C = E16)"
proof -
  let ?m = "Max (colours pieces)"
  have h: "highest_edge pieces = ?m" using assms(1) by (rule highest_edge_Max)
  have u: "unat (edges_count pieces) = unat ?m + 1"
    using assms(2) by (simp add: edges_count_def h unat_plus_one)
  have s: "solve_for_mask M pieces = Solve M C"
    using assms(3) by (auto simp: main_dispatch_def solve_for_mask_def Let_def split: if_splits)
  have lt: "\<And>k. (edges_count pieces < k) = (unat ?m + 1 < unat k)"
    by (simp add: word_less_nat_alt u)
  have all: "\<And>P. (\<forall>C'. P C') = (P E8 \<and> P E16 \<and> P E32)"
    by (metis edge_class.exhaust)
  have six: "?m = 6 \<Longrightarrow> unat ?m = 6" and seven: "?m = 7 \<Longrightarrow> unat ?m = 7"
    and eight: "?m = 8 \<Longrightarrow> unat ?m = 8" by simp_all
  show ?thesis using s six seven eight
    by (auto simp: solve_for_mask_def Let_def lt all split: if_splits)
qed

lemma pieces_max7_facts:
  "pieces_max7 \<noteq> []" "Max (colours pieces_max7) = 7"
  "main_dispatch pieces_max7 = Solve Mask32 E16"
  by (simp_all add: pieces_max7_def colours_def highest_edge_def edges_step_def raise_edge_def
      main_dispatch_def solve_for_mask_def edges_count_def)

theorem edge_class_smallest_witness:
  "unat (Max (colours pieces_max7)) + 1 < class_colours E16
   \<and> Max (colours pieces_max7) = 7 \<and> main_dispatch pieces_max7 = Solve Mask32 E16"
  using edge_class_smallest [of pieces_max7 Mask32 E16] pieces_max7_facts by simp

text \<open>
  The claim as it was stated fails: a puzzle whose highest colour is 7 is not solved in
  the 8 colour class.
\<close>

theorem edge_class_max7_counterexample:
  "Max (colours pieces_max7) = 7 \<and> main_dispatch pieces_max7 \<noteq> Solve Mask32 E8"
  by (simp add: pieces_max7_def colours_def highest_edge_def edges_step_def raise_edge_def
      main_dispatch_def solve_for_mask_def edges_count_def)

text \<open>
  Claim C5, as the code has it. For loaded pieces none of whose colours is \<open>2 ^ 64 - 1\<close>, the
  driver prints \<^verbatim>\<open>too many edges!\<close> exactly when there are at most 512 pieces and the
  highest colour is at least 31, it prints \<^verbatim>\<open>too many pieces!\<close> exactly when there are more
  than 512 pieces, and it solves exactly when there are at most 512 pieces and every
  colour is at most 30.
\<close>

theorem capacity_messages:
  assumes "pieces \<noteq> []" and "Max (colours pieces) \<noteq> - 1"
  shows "((main_dispatch pieces = Message ''too many edges!'')
          = (length pieces \<le> 512 \<and> 31 \<le> Max (colours pieces)))
    \<and> ((main_dispatch pieces = Message ''too many pieces!'') = (512 < length pieces))
    \<and> ((\<exists>M C. main_dispatch pieces = Solve M C)
          = (length pieces \<le> 512 \<and> Max (colours pieces) \<le> 30))"
proof -
  let ?m = "Max (colours pieces)"
  have h: "highest_edge pieces = ?m" using assms(1) by (rule highest_edge_Max)
  have u: "unat (edges_count pieces) = unat ?m + 1"
    using assms(2) by (simp add: edges_count_def h unat_plus_one)
  have lt: "\<And>k. (edges_count pieces < k) = (unat ?m + 1 < unat k)"
    by (simp add: word_less_nat_alt u)
  have le31: "(31 \<le> ?m) = (31 \<le> unat ?m)" and le30: "(?m \<le> 30) = (unat ?m \<le> 30)"
    by (simp_all add: word_le_nat_alt)
  have edges: "\<And>M. (solve_for_mask M pieces = Message ''too many edges!'') = (31 \<le> unat ?m)"
    by (auto simp: solve_for_mask_def Let_def lt)
  have npieces: "\<And>M. solve_for_mask M pieces \<noteq> Message ''too many pieces!''"
    by (auto simp: solve_for_mask_def Let_def)
  have solves: "\<And>M. (\<exists>M' C. solve_for_mask M pieces = Solve M' C) = (unat ?m \<le> 30)"
    by (auto simp: solve_for_mask_def Let_def lt)
  show ?thesis
    by (simp add: main_dispatch_def edges npieces solves le31 le30)
qed

lemma pieces_max31_facts:
  "pieces_max31 \<noteq> []" "Max (colours pieces_max31) = 31"
  by (simp_all add: pieces_max31_def colours_def)

theorem capacity_messages_witness:
  "main_dispatch pieces_max31 = Message ''too many edges!''
   \<and> main_dispatch pieces_max31 \<noteq> Message ''too many pieces!''"
  using capacity_messages [of pieces_max31] pieces_max31_facts
  by (simp add: pieces_max31_def)

text \<open>
  The claim as it was stated fails: a file whose highest colour is 31, so below 32, is
  rejected with \<^verbatim>\<open>too many edges!\<close> and not solved.
\<close>

theorem capacity_max31_counterexample:
  "Max (colours pieces_max31) = 31 \<and> length pieces_max31 \<le> 512
   \<and> main_dispatch pieces_max31 = Message ''too many edges!''"
  by (simp add: pieces_max31_def colours_def highest_edge_def edges_step_def raise_edge_def
      main_dispatch_def solve_for_mask_def edges_count_def)

text \<open>
  Claim C9, as the code has it. In the 16 and the 32 colour class the 1x1 tiles are kept
  in the array representation, the 1x2, 2x1 and 2x2 tiles in the vector representation
  and the 2x4 and larger tiles in the map representation. In the 8 colour class the
  1x1, 1x2 and 2x1 tiles are kept in the array representation, the 2x2, 2x4 and 4x2
  tiles in the vector representation, and the 4x4 and larger tiles in the map
  representation.
\<close>

theorem backend_table:
  "map (tileArrayLookups E32) [T1x1, T1x2, T2x1, T2x2, T2x4, T4x2, T4x4, T4x8, T8x4]
     = [LookupArray, LookupVector, LookupVector, LookupVector,
        LookupMap, LookupMap, LookupMap, LookupMap, LookupMap]
   \<and> map (tileArrayLookups E16) [T1x1, T1x2, T2x1, T2x2, T2x4, T4x2, T4x4, T4x8, T8x4]
     = [LookupArray, LookupVector, LookupVector, LookupVector,
        LookupMap, LookupMap, LookupMap, LookupMap, LookupMap]
   \<and> map (tileArrayLookups E8) [T1x1, T1x2, T2x1, T2x2, T2x4, T4x2, T4x4, T4x8, T8x4]
     = [LookupArray, LookupArray, LookupArray, LookupVector,
        LookupVector, LookupVector, LookupMap, LookupMap, LookupMap]"
  by simp

text \<open>
  The claim as it was stated fails in the 8 colour class: its 1x2 tiles are not in the
  vector representation, and its 2x4 tiles are not in the map representation.
\<close>

theorem backend_e8_counterexample:
  "tileArrayLookups E8 T1x2 \<noteq> LookupVector \<and> tileArrayLookups E8 T2x4 \<noteq> LookupMap"
  by simp

section \<open>The keys of a tile store\<close>

text \<open>
  Claim C7. For a layout that fits a lookup value, in the store built from the empty store
  by inserting the tiles \<open>ts\<close> in turn, every pointer found under a key \<open>k\<close> points to
  one of the inserted tiles, and \<open>k\<close> is the literal key of that tile (its left pattern,
  its top pattern and the flags of a right and a bottom pattern that are not zero, packed
  as a lookup value) or one of the three wildcard variants of that key. The lookup value
  that insert computes for a tile is its literal key. Inserting one more tile \<open>t\<close> appends
  it to the tiles and adds its pointer under its literal key; under the left wildcard
  variant exactly when its left pattern is not zero; under the top wildcard variant
  exactly when its top pattern is not zero; and under the variant with both wildcards
  exactly when both patterns are not zero.
\<close>

theorem insert_keys:
  assumes "layout_ok T"
  shows "(\<forall>k. \<forall>i \<in> set (at (insert_range T ts store_empty) k).
            i < length ts \<and> tile_list (insert_range T ts store_empty) ! i = ts ! i
            \<and> (k = literal_key T (ts ! i) \<or> k \<in> wildcard_variants T (literal_key T (ts ! i))))
    \<and> tile_index T t = literal_key T t
    \<and> tile_list (insert_tile T t (insert_range T ts store_empty)) = ts @ [t]
    \<and> length ts \<in> set (at (insert_tile T t (insert_range T ts store_empty)) (literal_key T t))
    \<and> (length ts \<in> set (at (insert_tile T t (insert_range T ts store_empty))
            (left_wildcard T (literal_key T t)))) = (t_left T t \<noteq> 0)
    \<and> (length ts \<in> set (at (insert_tile T t (insert_range T ts store_empty))
            (top_wildcard T (literal_key T t)))) = (t_top T t \<noteq> 0)
    \<and> (length ts \<in> set (at (insert_tile T t (insert_range T ts store_empty))
            (left_wildcard T (top_wildcard T (literal_key T t)))))
        = (t_left T t \<noteq> 0 \<and> t_top T t \<noteq> 0)"
proof -
  let ?S = "insert_range T ts store_empty"
  have tl: "tile_list ?S = ts"
    by (simp add: tile_list_insert_range store_empty_def)
  have inv: "\<forall>k. \<forall>i \<in> set (at ?S k). i < length ts \<and> tile_list ?S ! i = ts ! i
      \<and> (k = literal_key T (ts ! i) \<or> k \<in> wildcard_variants T (literal_key T (ts ! i)))"
    by (auto simp add: mem_at_insert_range [OF assms] tl dest: tile_keys_subset)
  have fresh: "\<And>k. length ts \<notin> set (at ?S k)"
    by (simp add: mem_at_insert_range [OF assms])
  have mem: "\<And>k. (length ts \<in> set (at (insert_tile T t ?S) k)) = (k \<in> tile_keys T t)"
    by (simp add: mem_at_insert_tile [OF assms] fresh tl)
  show ?thesis
    using inv
    by (simp add: mem tile_keys_literal tile_keys_left [OF assms] tile_keys_top [OF assms]
        tile_keys_both [OF assms] tile_index_eq_literal_key [OF assms] tile_list_insert_tile tl)
qed

lemma e8_ok: "layout_ok (tile_1x1 E8 1)"
  by (simp add: layout_ok_def tile_1x1_def)

theorem insert_keys_witness:
  "layout_ok (tile_1x1 E8 1)
   \<and> tile_list (insert_tile (tile_1x1 E8 1) tile_B (insert_range (tile_1x1 E8 1) [tile_A] store_empty)) = [tile_A, tile_B]
   \<and> 1 \<in> set (at (insert_tile (tile_1x1 E8 1) tile_B (insert_range (tile_1x1 E8 1) [tile_A] store_empty))
          (literal_key (tile_1x1 E8 1) tile_B))
   \<and> 1 \<notin> set (at (insert_tile (tile_1x1 E8 1) tile_B (insert_range (tile_1x1 E8 1) [tile_A] store_empty))
          (left_wildcard (tile_1x1 E8 1) (literal_key (tile_1x1 E8 1) tile_B)))
   \<and> 1 \<in> set (at (insert_tile (tile_1x1 E8 1) tile_B (insert_range (tile_1x1 E8 1) [tile_A] store_empty))
          (top_wildcard (tile_1x1 E8 1) (literal_key (tile_1x1 E8 1) tile_B)))"
proof -
  have l: "t_left (tile_1x1 E8 1) tile_B = 0" and t: "t_top (tile_1x1 E8 1) tile_B \<noteq> 0"
    by (simp_all add: t_left_def t_top_def tile_B_def tile_1x1_def)
  show ?thesis
    using insert_keys [OF e8_ok, of "[tile_A]" tile_B] e8_ok l t by simp
qed

end
